theory Spec2Isabelle
  imports Main "HOL-Library.Word" "HOL-Library.Char_ord" "HOL-Library.List_Lexorder"
begin

section \<open>Errors and Python values\<close>

text \<open>
  The exceptions the modelled code can raise. A failed \<^verbatim>\<open>assert\<close> raises
  \<^verbatim>\<open>AssertionError\<close> with the message of the statement (empty when it has none).
\<close>

datatype error = AssertionError string | TypeError | ZeroDivisionError | IndexError

section \<open>datasets/tfrecord.py: file names\<close>

text \<open>
  The local list \<^verbatim>\<open>skip\<close> of \<^verbatim>\<open>tfrecord_filename\<close> (line 55).
\<close>

definition skip :: "string list" where
  "skip = [''office_amazon'', ''office_dslr'', ''office_webcam'']"

text \<open>
  \<^verbatim>\<open>tfrecord_filename(domain1, domain2, dataset_name, train_or_test)\<close>, lines 35-66.
  \<^verbatim>\<open>domain2\<close> may be \<^verbatim>\<open>None\<close> (the docstring), the other arguments are strings.
  The two assertions come first, in the source's order; \<^verbatim>\<open>names.sort()\<close> orders the two
  strings lexicographically (Python compares strings code point by code point, which is
  the order of \<open>List_Lexorder\<close> over \<open>Char_ord\<close>); the \<^verbatim>\<open>%s\<close> formats are concatenations.
\<close>

definition tfrecord_filename :: "string \<Rightarrow> string option \<Rightarrow> string \<Rightarrow> string \<Rightarrow> error + string" where
  "tfrecord_filename domain1 domain2 dataset_name train_or_test =
     (if train_or_test \<notin> set [''train'', ''valid'', ''test'']
      then Inl (AssertionError ''train_or_test must be train, valid, or test'')
      else if Some dataset_name \<notin> set [Some domain1, domain2]
      then Inl (AssertionError ''dataset_name must be one of domain1 or domain2'')
      else (case domain2 of
              None \<Rightarrow> Inr (dataset_name @ ''_'' @ train_or_test @ ''.tfrecord'')
            | Some d2 \<Rightarrow>
                if domain1 \<in> set skip \<and> d2 \<in> set skip
                then Inr (dataset_name @ ''_'' @ train_or_test @ ''.tfrecord'')
                else (let names = sort [domain1, d2];
                          prefix = names ! 0 @ ''_and_'' @ names ! 1
                      in Inr (prefix @ ''_'' @ dataset_name @ ''_'' @ train_or_test @ ''.tfrecord''))))"

text \<open>
  \<^verbatim>\<open>tfrecord_filename_simple(dataset_name, train_or_test)\<close>, lines 69-81.
\<close>

definition tfrecord_filename_simple :: "string \<Rightarrow> string \<Rightarrow> error + string" where
  "tfrecord_filename_simple dataset_name train_or_test =
     (if train_or_test \<notin> set [''train'', ''valid'', ''test'']
      then Inl (AssertionError ''train_or_test must be train, valid, or test'')
      else Inr (dataset_name @ ''_'' @ train_or_test @ ''.tfrecord''))"

section \<open>datasets/tfrecord.py: writing records\<close>

text \<open>
  TensorFlow is outside the repository. Its two serialisers are parameters of the model:
  \<open>serialize_tensor\<close> stands for \<^verbatim>\<open>tf.io.serialize_tensor\<close> (followed by \<^verbatim>\<open>.numpy()\<close>,
  which unwraps the bytes) and \<open>SerializeToString\<close> for the method of the same name of
  \<^verbatim>\<open>tf.train.Example\<close>. A \<^verbatim>\<open>tf.train.Feature\<close> built from a bytes list is \<open>BytesList\<close>;
  the feature dictionary of an example is an association list in the source's order.
\<close>

datatype 'b feature = BytesList "'b list"

type_synonym 'b example = "(string \<times> 'b feature) list"

text \<open>\<^verbatim>\<open>_bytes_feature(value)\<close>, lines 7-11.\<close>

definition bytes_feature :: "'b \<Rightarrow> 'b feature" where
  "bytes_feature v = BytesList [v]"

text \<open>\<^verbatim>\<open>create_tf_example(x, y, domain)\<close>, lines 14-20.\<close>

definition create_tf_example :: "('t \<Rightarrow> 'b) \<Rightarrow> 't \<Rightarrow> 't \<Rightarrow> 't \<Rightarrow> 'b example" where
  "create_tf_example serialize_tensor x y domain =
     [(''x'', bytes_feature (serialize_tensor x)),
      (''y'', bytes_feature (serialize_tensor y)),
      (''domain'', bytes_feature (serialize_tensor domain))]"

text \<open>
  The loop of \<^verbatim>\<open>write_tfrecord\<close>, lines 30-32, over the indices still to visit; \<open>written\<close>
  is what the writer has received so far. An index outside one of the sequences raises
  \<^verbatim>\<open>IndexError\<close>, as Python's subscript does.
\<close>

fun write_examples ::
  "('t \<Rightarrow> 'b) \<Rightarrow> ('b example \<Rightarrow> 'r) \<Rightarrow> 't list \<Rightarrow> 't list \<Rightarrow> 't list \<Rightarrow> nat list \<Rightarrow> 'r list
     \<Rightarrow> error + 'r list" where
  "write_examples serialize_tensor SerializeToString x y domain [] written = Inr written"
| "write_examples serialize_tensor SerializeToString x y domain (i # rest) written =
     (if i < length x \<and> i < length y \<and> i < length domain
      then write_examples serialize_tensor SerializeToString x y domain rest
             (written @ [SerializeToString (create_tf_example serialize_tensor (x ! i) (y ! i) (domain ! i))])
      else Inl IndexError)"

text \<open>
  \<^verbatim>\<open>write_tfrecord(filename, x, y, domain)\<close>, lines 23-32. The file system is a map from
  file names to the records they hold; the writer replaces the file of that name. The two
  assertions have no message.
\<close>

definition write_tfrecord ::
  "('t \<Rightarrow> 'b) \<Rightarrow> ('b example \<Rightarrow> 'r) \<Rightarrow> (string \<rightharpoonup> 'r list) \<Rightarrow> string \<Rightarrow> 't list \<Rightarrow> 't list \<Rightarrow> 't list
     \<Rightarrow> error + (string \<rightharpoonup> 'r list)" where
  "write_tfrecord serialize_tensor SerializeToString files filename x y domain =
     (if length x \<noteq> length y then Inl (AssertionError [])
      else if length x \<noteq> length domain then Inl (AssertionError [])
      else (case write_examples serialize_tensor SerializeToString x y domain [0..<length x] [] of
              Inl e \<Rightarrow> Inl e
            | Inr records \<Rightarrow> Inr (files(filename \<mapsto> records))))"

section \<open>main.py: flags\<close>

text \<open>
  The flags of lines 24-41 that the modelled functions read, each with the type of its
  \<^verbatim>\<open>flags.DEFINE_*\<close>: \<^verbatim>\<open>DEFINE_string\<close> and \<^verbatim>\<open>DEFINE_enum\<close> give a string,
  \<^verbatim>\<open>DEFINE_integer\<close> a Python integer, \<^verbatim>\<open>DEFINE_boolean\<close> a boolean. In particular
  \<^verbatim>\<open>uid\<close> is declared with \<^verbatim>\<open>DEFINE_integer("uid", 0, ...)\<close> (line 30), so
  \<^verbatim>\<open>FLAGS.uid\<close> is an integer. The field \<open>FLAGS_f\<close> is \<^verbatim>\<open>FLAGS.f\<close>.
\<close>

record FLAGS =
  FLAGS_modeldir :: string
  FLAGS_logdir :: string
  FLAGS_method :: string
  FLAGS_dataset :: string
  FLAGS_uid :: int
  FLAGS_steps :: int
  FLAGS_model_steps :: int
  FLAGS_log_train_steps :: int
  FLAGS_log_val_steps :: int
  FLAGS_log_plots_steps :: int
  FLAGS_subdir :: bool
  FLAGS_debug :: bool
  FLAGS_time_training :: bool
  FLAGS_debugnum :: int

text \<open>
  The defaults of lines 24-41, for a given data set and method (both required flags,
  with no default).
\<close>

definition default_FLAGS :: "string \<Rightarrow> string \<Rightarrow> FLAGS" where
  "default_FLAGS dataset method_name =
     \<lparr>FLAGS_modeldir = ''models'', FLAGS_logdir = ''logs'', FLAGS_method = method_name,
      FLAGS_dataset = dataset, FLAGS_uid = 0, FLAGS_steps = 80000, FLAGS_model_steps = 4000,
      FLAGS_log_train_steps = 500, FLAGS_log_val_steps = 4000, FLAGS_log_plots_steps = 4000,
      FLAGS_subdir = True, FLAGS_debug = False, FLAGS_time_training = False,
      FLAGS_debugnum = - 1\<rparr>"

section \<open>main.py: directory names\<close>

text \<open>
  Python values of the two types that meet in line 51, and \<^verbatim>\<open>s + v\<close> for a string
  \<open>s\<close>: concatenation when \<open>v\<close> is a string, \<^verbatim>\<open>TypeError\<close> when it is an integer.
\<close>

datatype pyval = PyStr string | PyInt int

fun str_add :: "string \<Rightarrow> pyval \<Rightarrow> error + string" where
  "str_add s (PyStr t) = Inr (s @ t)"
| "str_add s (PyInt n) = Inl TypeError"

text \<open>\<^verbatim>\<open>str(n)\<close> for an integer: its decimal digits, with a minus sign when negative.\<close>

fun str_nat :: "nat \<Rightarrow> string" where
  "str_nat n =
     (if n < 10 then [''0123456789'' ! n]
      else str_nat (n div 10) @ [''0123456789'' ! (n mod 10)])"

declare str_nat.simps [simp del]

definition str :: "int \<Rightarrow> string" where
  "str n = (if n < 0 then CHR ''-'' # str_nat (nat (- n)) else str_nat (nat n))"

text \<open>
  \<^verbatim>\<open>os.path.join(a, b)\<close> of the standard library (POSIX): \<open>b\<close> alone when it is absolute,
  no separator added when \<open>a\<close> is empty or ends with one.
\<close>

definition os_path_join :: "string \<Rightarrow> string \<Rightarrow> string" where
  "os_path_join a b =
     (if take 1 b = ''/'' then b
      else if a = [] \<or> last a = CHR ''/'' then a @ b
      else a @ ''/'' @ b)"

text \<open>
  Lines 53-79 of \<^verbatim>\<open>get_directory_names\<close>: the branch on the debugging modes, for a
  given value of \<^verbatim>\<open>prefix\<close>. \<^verbatim>\<open>file_utils.last_modified_number\<close> is not among the sources
  and is a parameter (\<^verbatim>\<open>None\<close> or an integer, line 64). The result is the pair
  \<^verbatim>\<open>(model_dir, log_dir)\<close>, with the list of the calls made to
  \<^verbatim>\<open>last_modified_number\<close>, each as its two arguments. The \<^verbatim>\<open>logging.info\<close> calls are
  left out.
\<close>

definition directory_names_for ::
  "(string \<Rightarrow> string \<Rightarrow> int option) \<Rightarrow> FLAGS \<Rightarrow> string \<Rightarrow> (string \<times> string) \<times> (string \<times> string) list" where
  "directory_names_for last_modified_number F prefix =
     (if FLAGS_debugnum F \<ge> 0 then
        (let attempt = FLAGS_debugnum F;
             prefix' = prefix @ (''-'' @ str attempt)
         in ((os_path_join (FLAGS_modeldir F) prefix', os_path_join (FLAGS_logdir F) prefix'), []))
      else if FLAGS_debug F then
        (let attempt = last_modified_number (FLAGS_logdir F) (prefix @ ''*'');
             attempt' = (case attempt of Some a \<Rightarrow> a + 1 | None \<Rightarrow> 1);
             prefix' = prefix @ (''-'' @ str attempt')
         in ((os_path_join (FLAGS_modeldir F) prefix', os_path_join (FLAGS_logdir F) prefix'),
             [(FLAGS_logdir F, prefix @ ''*'')]))
      else if FLAGS_subdir F then
        ((os_path_join (FLAGS_modeldir F) prefix, os_path_join (FLAGS_logdir F) prefix), [])
      else ((FLAGS_modeldir F, FLAGS_logdir F), []))"

text \<open>
  \<^verbatim>\<open>get_directory_names()\<close>, lines 49-79. Line 51 is
  \<^verbatim>\<open>prefix = FLAGS.dataset+"-"+FLAGS.uid+"-"+FLAGS.method\<close>, read from the left: the string
  \<^verbatim>\<open>FLAGS.dataset+"-"\<close> plus the integer \<^verbatim>\<open>FLAGS.uid\<close>, then the two strings.
\<close>

definition get_directory_names ::
  "(string \<Rightarrow> string \<Rightarrow> int option) \<Rightarrow> FLAGS \<Rightarrow> error + ((string \<times> string) \<times> (string \<times> string) list)" where
  "get_directory_names last_modified_number F =
     (case str_add (FLAGS_dataset F @ ''-'') (PyInt (FLAGS_uid F)) of
        Inl e \<Rightarrow> Inl e
      | Inr s \<Rightarrow> Inr (directory_names_for last_modified_number F (s @ ''-'' @ FLAGS_method F)))"

section \<open>main.py: the training loop\<close>

text \<open>
  The calls the loop of \<^verbatim>\<open>main\<close> (lines 124-159) makes to its collaborators, none of
  which is among the sources. A call made inside the loop is recorded with the value of
  the loop variable \<^verbatim>\<open>i\<close> and with the integer arguments it receives: \<^verbatim>\<open>int(global_step)\<close>
  at the time of the call, and for \<^verbatim>\<open>checkpoint_manager.save\<close> its two arguments. The
  measured time \<^verbatim>\<open>t\<close> and the data batches are left out. \<open>'s\<close> is the type of a validation
  accuracy.
\<close>

datatype 's call =
    TrainStep
  | PrintTiming int
  | LoggingInfo int
  | MetricsTrain int
  | MetricsTest int
  | CheckpointSave int "'s option"
  | MetricsPlots int

datatype 's event = Iteration int "'s call" | WriteFinished

text \<open>
  \<^verbatim>\<open>global_step\<close> is \<^verbatim>\<open>tf.Variable(0, ...)\<close> (line 103), a 32-bit signed integer
  variable: \<^verbatim>\<open>assign_add\<close> and \<^verbatim>\<open>global_step-1\<close> are 32-bit operations, taken to wrap
  around, and \<^verbatim>\<open>int(global_step)\<close> is \<open>sint\<close>. The loop variable and the flags are Python
  integers. The collaborators are taken not to assign \<^verbatim>\<open>global_step\<close>.
\<close>

record 's main_state =
  global_step :: "32 word"
  trace :: "'s event list"

definition hook :: "int \<Rightarrow> 's call \<Rightarrow> 's main_state \<Rightarrow> 's main_state" where
  "hook i c st = st\<lparr>trace := trace st @ [Iteration i c]\<rparr>"

text \<open>Python's \<^verbatim>\<open>a % b\<close> on integers: the sign of the divisor, \<^verbatim>\<open>ZeroDivisionError\<close> at 0.\<close>

definition py_mod :: "int \<Rightarrow> int \<Rightarrow> error + int" where
  "py_mod a b = (if b = 0 then Inl ZeroDivisionError else Inr (a mod b))"

text \<open>
  The body of the loop, lines 125-156, at loop variable \<open>i\<close>. \<open>metrics_test\<close> stands for
  the value \<^verbatim>\<open>metrics.test(global_step)\<close> returns, as a function of \<^verbatim>\<open>int(global_step)\<close>.
  The result is the exception raised, if any, with the state reached. In time-only mode
  the \<^verbatim>\<open>continue\<close> of line 133 ends the iteration.
\<close>

definition iteration ::
  "FLAGS \<Rightarrow> (int \<Rightarrow> 's option) \<Rightarrow> int \<Rightarrow> 's main_state \<Rightarrow> error option \<times> 's main_state" where
  "iteration F metrics_test i st0 =
     (let st1 = hook i TrainStep st0;
          st2 = st1\<lparr>global_step := global_step st1 + 1\<rparr>
      in if FLAGS_time_training F
         then (None, hook i (PrintTiming (sint (global_step st2))) st2)
         else
          (let st3 = (if i mod 100 = 0 then hook i (LoggingInfo (sint (global_step st2))) st2 else st2)
           in case py_mod i (FLAGS_log_train_steps F) of
                Inl e \<Rightarrow> (Some e, st3)
              | Inr r1 \<Rightarrow>
                  (let st4 = (if r1 = 0 then hook i (MetricsTrain (sint (global_step st3))) st3 else st3)
                   in case py_mod i (FLAGS_log_val_steps F) of
                        Inl e \<Rightarrow> (Some e, st4)
                      | Inr r2 \<Rightarrow>
                          (let validate = (r2 = 0 \<or> i = FLAGS_steps F);
                               validation_accuracy =
                                 (if validate then metrics_test (sint (global_step st4)) else None);
                               st5 = (if validate then hook i (MetricsTest (sint (global_step st4))) st4
                                      else st4)
                           in case py_mod i (FLAGS_model_steps F) of
                                Inl e \<Rightarrow> (Some e, st5)
                              | Inr r3 \<Rightarrow>
                                  (let st6 =
                                     (if r3 = 0 \<or> validation_accuracy \<noteq> None
                                      then hook i (CheckpointSave (sint (global_step st5 - 1))
                                                     validation_accuracy) st5
                                      else st5)
                                   in case py_mod i (FLAGS_log_plots_steps F) of
                                        Inl e \<Rightarrow> (Some e, st6)
                                      | Inr r4 \<Rightarrow>
                                          (None,
                                           if r4 = 0
                                           then hook i (MetricsPlots (sint (global_step st6))) st6
                                           else st6))))))"

text \<open>
  The \<^verbatim>\<open>for\<close> loop over the values of \<^verbatim>\<open>range(int(global_step), FLAGS.steps+1)\<close> still to
  visit; an exception leaves the loop.
\<close>

fun run_loop ::
  "FLAGS \<Rightarrow> (int \<Rightarrow> 's option) \<Rightarrow> int list \<Rightarrow> 's main_state \<Rightarrow> error option \<times> 's main_state" where
  "run_loop F metrics_test [] st = (None, st)"
| "run_loop F metrics_test (i # rest) st =
     (case iteration F metrics_test i st of
        (Some e, st') \<Rightarrow> (Some e, st')
      | (None, st') \<Rightarrow> run_loop F metrics_test rest st')"

text \<open>
  Lines 124-159 of \<^verbatim>\<open>main\<close>, from the value of \<^verbatim>\<open>global_step\<close> that
  \<^verbatim>\<open>checkpoint_manager.restore_latest()\<close> left: the loop, whose range is fixed when it
  starts, then \<^verbatim>\<open>file_utils.write_finished(log_dir)\<close>.
\<close>

definition main_loop ::
  "FLAGS \<Rightarrow> (int \<Rightarrow> 's option) \<Rightarrow> 32 word \<Rightarrow> error option \<times> 's main_state" where
  "main_loop F metrics_test restored =
     (case run_loop F metrics_test [sint restored..FLAGS_steps F] \<lparr>global_step = restored, trace = []\<rparr> of
        (Some e, st) \<Rightarrow> (Some e, st)
      | (None, st) \<Rightarrow> (None, st\<lparr>trace := trace st @ [WriteFinished]\<rparr>))"

text \<open>
  The calls one iteration makes when no modulus is zero (or in time-only mode), in
  order, as a list: what \<open>iteration\<close> appends to the trace. \<open>gs\<close> is \<^verbatim>\<open>global_step\<close>
  after line 128. It is proved equal to the loop body below (\<open>iteration_result\<close>).
\<close>

definition iteration_calls :: "FLAGS \<Rightarrow> (int \<Rightarrow> 's option) \<Rightarrow> int \<Rightarrow> 32 word \<Rightarrow> 's call list" where
  "iteration_calls F metrics_test i gs =
     (if FLAGS_time_training F then [TrainStep, PrintTiming (sint gs)]
      else
        (let validate = (i mod FLAGS_log_val_steps F = 0 \<or> i = FLAGS_steps F);
             validation_accuracy = (if validate then metrics_test (sint gs) else None)
         in [TrainStep]
            @ (if i mod 100 = 0 then [LoggingInfo (sint gs)] else [])
            @ (if i mod FLAGS_log_train_steps F = 0 then [MetricsTrain (sint gs)] else [])
            @ (if validate then [MetricsTest (sint gs)] else [])
            @ (if i mod FLAGS_model_steps F = 0 \<or> validation_accuracy \<noteq> None
               then [CheckpointSave (sint (gs - 1)) validation_accuracy] else [])
            @ (if i mod FLAGS_log_plots_steps F = 0 then [MetricsPlots (sint gs)] else [])))"

text \<open>Several calls of one iteration, appended to the trace in order.\<close>

definition hooks :: "int \<Rightarrow> 's call list \<Rightarrow> 's main_state \<Rightarrow> 's main_state" where
  "hooks i cs st = st\<lparr>trace := trace st @ map (Iteration i) cs\<rparr>"

text \<open>The events of a trace that are calls of \<^verbatim>\<open>metrics.test\<close>.\<close>

fun is_validation :: "'s event \<Rightarrow> bool" where
  "is_validation (Iteration i (MetricsTest g)) = True"
| "is_validation e = False"

text \<open>The events of a trace that are calls of \<^verbatim>\<open>metrics.plots\<close>.\<close>

fun is_plots :: "'s event \<Rightarrow> bool" where
  "is_plots (Iteration i (MetricsPlots g)) = True"
| "is_plots e = False"

section \<open>Properties of the file names\<close>

lemma sort_pair: "sort [a, b] = [min a b, max a b]" for a b :: "'a::linorder"
  by (auto simp: min_def max_def)

text \<open>
  C8: the three example calls: two domains of the skip list give
  \<^verbatim>\<open>office_amazon_train.tfrecord\<close>; the domains \<^verbatim>\<open>A\<close> and \<^verbatim>\<open>B\<close>, in either order,
  give \<^verbatim>\<open>A_and_B_A_test.tfrecord\<close>.
\<close>

theorem tfrecord_filename_examples:
  "tfrecord_filename ''office_amazon'' (Some ''office_webcam'') ''office_amazon'' ''train''
      = Inr ''office_amazon_train.tfrecord''
   \<and> tfrecord_filename ''A'' (Some ''B'') ''A'' ''test'' = Inr ''A_and_B_A_test.tfrecord''
   \<and> tfrecord_filename ''B'' (Some ''A'') ''A'' ''test'' = Inr ''A_and_B_A_test.tfrecord''"
  by (simp add: tfrecord_filename_def skip_def)

text \<open>
  C3: for distinct domains \<open>A\<close> and \<open>B\<close> that are not both in the skip list, a
  data set name that is one of them and a valid split, the file name does not depend on the
  order of the two domains: it starts with the smaller of the two, \<^verbatim>\<open>_and_\<close>, the larger.
\<close>

theorem tfrecord_filename_commutes:
  assumes "A \<noteq> B"
    and "\<not> (A \<in> set skip \<and> B \<in> set skip)"
    and "dataset_name = A \<or> dataset_name = B"
    and "train_or_test \<in> {''train'', ''valid'', ''test''}"
  shows "tfrecord_filename A (Some B) dataset_name train_or_test
           = tfrecord_filename B (Some A) dataset_name train_or_test
       \<and> tfrecord_filename A (Some B) dataset_name train_or_test
           = Inr (min A B @ ''_and_'' @ max A B @ ''_'' @ dataset_name @ ''_'' @ train_or_test @ ''.tfrecord'')"
proof -
  have ok: "train_or_test \<in> set [''train'', ''valid'', ''test'']"
    using assms(4) by simp
  have ab: "tfrecord_filename A (Some B) dataset_name train_or_test
      = Inr (min A B @ ''_and_'' @ max A B @ ''_'' @ dataset_name @ ''_'' @ train_or_test @ ''.tfrecord'')"
    using assms(2,3) ok unfolding tfrecord_filename_def sort_pair Let_def by auto
  have ba: "tfrecord_filename B (Some A) dataset_name train_or_test
      = Inr (min B A @ ''_and_'' @ max B A @ ''_'' @ dataset_name @ ''_'' @ train_or_test @ ''.tfrecord'')"
    using assms(2,3) ok unfolding tfrecord_filename_def sort_pair Let_def by auto
  show ?thesis
    unfolding ab ba by (simp add: min.commute max.commute)
qed

theorem tfrecord_filename_commutes_witness:
  "tfrecord_filename ''usps'' (Some ''mnist'') ''mnist'' ''valid''
     = tfrecord_filename ''mnist'' (Some ''usps'') ''mnist'' ''valid''
   \<and> tfrecord_filename ''usps'' (Some ''mnist'') ''mnist'' ''valid''
     = Inr ''mnist_and_usps_mnist_valid.tfrecord''"
proof -
  have both: "tfrecord_filename ''usps'' (Some ''mnist'') ''mnist'' ''valid''
           = tfrecord_filename ''mnist'' (Some ''usps'') ''mnist'' ''valid''
       \<and> tfrecord_filename ''usps'' (Some ''mnist'') ''mnist'' ''valid''
           = Inr (min ''usps'' ''mnist'' @ ''_and_'' @ max ''usps'' ''mnist'' @ ''_'' @ ''mnist'' @ ''_'' @ ''valid'' @ ''.tfrecord'')"
    by (rule tfrecord_filename_commutes) (simp_all add: skip_def)
  have order: "min ''usps'' ''mnist'' = ''mnist''" "max ''usps'' ''mnist'' = ''usps''"
    by (simp_all add: min_def max_def)
  have name: "tfrecord_filename ''usps'' (Some ''mnist'') ''mnist'' ''valid''
      = Inr ''mnist_and_usps_mnist_valid.tfrecord''"
    using conjunct2 [OF both] unfolding order by simp
  show ?thesis
    by (rule conjI [OF conjunct1 [OF both] name])
qed

text \<open>
  C9: \<^verbatim>\<open>tfrecord_filename\<close> raises its assertion error exactly when the split
  is not \<^verbatim>\<open>train\<close>, \<^verbatim>\<open>valid\<close> or \<^verbatim>\<open>test\<close>, or the data set name is neither domain;
  \<^verbatim>\<open>tfrecord_filename_simple\<close> exactly when the split is not one of the three; on every other
  input each returns a name.
\<close>

theorem tfrecord_filename_fails_iff:
  "((\<exists>msg. tfrecord_filename domain1 domain2 dataset_name train_or_test = Inl (AssertionError msg))
      \<longleftrightarrow> (train_or_test \<notin> {''train'', ''valid'', ''test''}
           \<or> (dataset_name \<noteq> domain1 \<and> domain2 \<noteq> Some dataset_name)))
   \<and> ((\<exists>name. tfrecord_filename domain1 domain2 dataset_name train_or_test = Inr name)
      \<longleftrightarrow> (train_or_test \<in> {''train'', ''valid'', ''test''}
           \<and> (dataset_name = domain1 \<or> domain2 = Some dataset_name)))
   \<and> ((\<exists>msg. tfrecord_filename_simple dataset_name train_or_test = Inl (AssertionError msg))
      \<longleftrightarrow> train_or_test \<notin> {''train'', ''valid'', ''test''})
   \<and> ((\<exists>name. tfrecord_filename_simple dataset_name train_or_test = Inr name)
      \<longleftrightarrow> train_or_test \<in> {''train'', ''valid'', ''test''})"
proof -
  have simple: "(\<exists>msg. tfrecord_filename_simple dataset_name train_or_test = Inl (AssertionError msg))
      \<longleftrightarrow> train_or_test \<notin> {''train'', ''valid'', ''test''}"
    "(\<exists>name. tfrecord_filename_simple dataset_name train_or_test = Inr name)
      \<longleftrightarrow> train_or_test \<in> {''train'', ''valid'', ''test''}"
    by (simp_all add: tfrecord_filename_simple_def)
  have pair1: "(\<exists>msg. tfrecord_filename domain1 domain2 dataset_name train_or_test = Inl (AssertionError msg))
      \<longleftrightarrow> (train_or_test \<notin> {''train'', ''valid'', ''test''}
           \<or> (dataset_name \<noteq> domain1 \<and> domain2 \<noteq> Some dataset_name))"
    by (cases domain2) (auto simp: tfrecord_filename_def Let_def)
  have pair2: "(\<exists>name. tfrecord_filename domain1 domain2 dataset_name train_or_test = Inr name)
      \<longleftrightarrow> (train_or_test \<in> {''train'', ''valid'', ''test''}
           \<and> (dataset_name = domain1 \<or> domain2 = Some dataset_name))"
    by (cases domain2) (auto simp: tfrecord_filename_def Let_def)
  show ?thesis
    using simple pair1 pair2 by blast
qed

theorem tfrecord_filename_fails_iff_witness:
  "(\<exists>msg. tfrecord_filename ''a'' (Some ''b'') ''c'' ''train'' = Inl (AssertionError msg))
   \<and> (\<exists>msg. tfrecord_filename ''a'' None ''a'' ''training'' = Inl (AssertionError msg))
   \<and> (\<exists>name. tfrecord_filename ''a'' None ''a'' ''train'' = Inr name)
   \<and> (\<exists>msg. tfrecord_filename_simple ''a'' ''eval'' = Inl (AssertionError msg))
   \<and> (\<exists>name. tfrecord_filename_simple ''a'' ''test'' = Inr name)"
  using tfrecord_filename_fails_iff [of "''a''" "Some ''b''" "''c''" "''train''"]
    tfrecord_filename_fails_iff [of "''a''" None "''a''" "''training''"]
    tfrecord_filename_fails_iff [of "''a''" None "''a''" "''train''"]
    tfrecord_filename_fails_iff [of _ _ "''a''" "''eval''"]
    tfrecord_filename_fails_iff [of _ _ "''a''" "''test''"]
  by simp

section \<open>Properties of the record writer\<close>

lemma write_examples_upt:
  assumes "length y = length x" and "length domain = length x" and "n \<le> length x"
  shows "write_examples ser sts x y domain [k..<n] written
       = Inr (written @ map (\<lambda>i. sts (create_tf_example ser (x ! i) (y ! i) (domain ! i))) [k..<n])"
  using assms
proof (induction "n - k" arbitrary: k written)
  case 0
  then show ?case by simp
next
  case (Suc d)
  then have kn: "k < n" and d: "d = n - Suc k" by auto
  have "write_examples ser sts x y domain [k..<n] written
      = write_examples ser sts x y domain [Suc k..<n]
          (written @ [sts (create_tf_example ser (x ! k) (y ! k) (domain ! k))])"
    using kn Suc.prems by (simp add: upt_conv_Cons)
  also have "\<dots> = Inr ((written @ [sts (create_tf_example ser (x ! k) (y ! k) (domain ! k))])
        @ map (\<lambda>i. sts (create_tf_example ser (x ! i) (y ! i) (domain ! i))) [Suc k..<n])"
    using Suc.hyps(1) [OF d Suc.prems] .
  finally show ?case
    using kn by (simp add: upt_conv_Cons)
qed

text \<open>
  C10: \<^verbatim>\<open>write_tfrecord\<close> raises its assertion error exactly when the three
  sequences do not have the same length; when they do, the file holds one serialised example
  per index, in increasing order, each built from the three elements at that index.
\<close>

theorem write_tfrecord_lengths:
  "((\<exists>msg. write_tfrecord ser sts files filename x y domain = Inl (AssertionError msg))
      \<longleftrightarrow> (length x \<noteq> length y \<or> length x \<noteq> length domain))
   \<and> (length x = length y \<and> length x = length domain \<longrightarrow>
        write_tfrecord ser sts files filename x y domain
          = Inr (files(filename \<mapsto>
                   map (\<lambda>i. sts (create_tf_example ser (x ! i) (y ! i) (domain ! i))) [0..<length x])))"
proof -
  have eq: "write_tfrecord ser sts files filename x y domain
          = Inr (files(filename \<mapsto>
                   map (\<lambda>i. sts (create_tf_example ser (x ! i) (y ! i) (domain ! i))) [0..<length x]))"
    if "length x = length y" and "length x = length domain"
    using that write_examples_upt [of y x domain "length x" ser sts 0 "[]"]
    by (simp add: write_tfrecord_def)
  have fail: "\<exists>msg. write_tfrecord ser sts files filename x y domain = Inl (AssertionError msg)"
    if "length x \<noteq> length y \<or> length x \<noteq> length domain"
    using that by (auto simp: write_tfrecord_def)
  show ?thesis
  proof (cases "length x = length y \<and> length x = length domain")
    case True
    then show ?thesis using eq by simp
  next
    case False
    then show ?thesis using fail by blast
  qed
qed

theorem write_tfrecord_lengths_witness:
  "write_tfrecord (\<lambda>t. t) (map snd) Map.empty ''out.tfrecord'' [1, 2] [3, 4] [5, 6::nat]
     = Inr [''out.tfrecord'' \<mapsto> [[BytesList [1], BytesList [3], BytesList [5]],
                                  [BytesList [2], BytesList [4], BytesList [6]]]]
   \<and> (\<exists>msg. write_tfrecord (\<lambda>t. t) (map snd) Map.empty ''out.tfrecord'' [1, 2] [3] [5, 6::nat]
          = Inl (AssertionError msg))"
  using write_tfrecord_lengths [of "\<lambda>t. t" "map snd" Map.empty "''out.tfrecord''" "[1, 2]" "[3, 4]" "[5, 6::nat]"]
    write_tfrecord_lengths [of "\<lambda>t. t" "map snd" Map.empty "''out.tfrecord''" "[1, 2]" "[3]" "[5, 6::nat]"]
  by (simp add: create_tf_example_def bytes_feature_def)

section \<open>Properties of the training loop\<close>

lemma hook_hooks: "hook i c st = hooks i [c] st"
  by (simp add: hook_def hooks_def)

lemma if_hooks: "(if b then hooks i cs st else st) = hooks i (if b then cs else []) st"
  by (simp add: hooks_def)

lemma hooks_hooks: "hooks i cs (hooks i ds st) = hooks i (ds @ cs) st"
  by (simp add: hooks_def)

lemma global_step_hooks: "global_step (hooks i cs st) = global_step st"
  by (simp add: hooks_def)

lemma trace_hooks: "trace (hooks i cs st) = trace st @ map (Iteration i) cs"
  by (simp add: hooks_def)

lemma hooks_global_step_update:
  "(hooks i cs st)\<lparr>global_step := g\<rparr> = hooks i cs (st\<lparr>global_step := g\<rparr>)"
  by (simp add: hooks_def)

lemma hooks_record:
  "hooks i cs (st\<lparr>global_step := g\<rparr>) = \<lparr>global_step = g, trace = trace st @ map (Iteration i) cs\<rparr>"
  by (simp add: hooks_def)

lemma py_mod_nonzero: "b \<noteq> 0 \<Longrightarrow> py_mod a b = Inr (a mod b)"
  by (simp add: py_mod_def)

lemma iteration_timing:
  assumes "FLAGS_time_training F"
  shows "iteration F metrics_test i st
       = (None, \<lparr>global_step = global_step st + 1,
                 trace = trace st @ map (Iteration i) (iteration_calls F metrics_test i (global_step st + 1))\<rparr>)"
  using assms
  by (simp add: iteration_def iteration_calls_def Let_def hook_hooks hooks_hooks global_step_hooks
      hooks_global_step_update hooks_record trace_hooks)

lemma iteration_training:
  assumes "\<not> FLAGS_time_training F"
    and "FLAGS_log_train_steps F \<noteq> 0" and "FLAGS_log_val_steps F \<noteq> 0"
    and "FLAGS_model_steps F \<noteq> 0" and "FLAGS_log_plots_steps F \<noteq> 0"
  shows "iteration F metrics_test i st
       = (None, \<lparr>global_step = global_step st + 1,
                 trace = trace st @ map (Iteration i) (iteration_calls F metrics_test i (global_step st + 1))\<rparr>)"
  using assms
  by (simp add: iteration_def iteration_calls_def Let_def hook_hooks if_hooks hooks_hooks
      global_step_hooks hooks_global_step_update hooks_record trace_hooks py_mod_nonzero
      split del: if_split cong: if_cong)


lemma iteration_result:
  assumes "FLAGS_time_training F \<or>
     (FLAGS_log_train_steps F \<noteq> 0 \<and> FLAGS_log_val_steps F \<noteq> 0 \<and> FLAGS_model_steps F \<noteq> 0
      \<and> FLAGS_log_plots_steps F \<noteq> 0)"
  shows "iteration F metrics_test i st
       = (None, \<lparr>global_step = global_step st + 1,
                 trace = trace st @ map (Iteration i) (iteration_calls F metrics_test i (global_step st + 1))\<rparr>)"
proof (cases "FLAGS_time_training F")
  case True
  then show ?thesis by (rule iteration_timing)
next
  case False
  with assms show ?thesis by (intro iteration_training) simp_all
qed

lemma run_loop_upto:
  assumes ok: "FLAGS_time_training F \<or>
     (FLAGS_log_train_steps F \<noteq> 0 \<and> FLAGS_log_val_steps F \<noteq> 0 \<and> FLAGS_model_steps F \<noteq> 0
      \<and> FLAGS_log_plots_steps F \<noteq> 0)"
    and start: "global_step st = word_of_int a"
  shows "run_loop F metrics_test [a..b] st
       = (None, \<lparr>global_step = word_of_int (max a (b + 1)),
                 trace = trace st @ concat (map (\<lambda>i. map (Iteration i)
                            (iteration_calls F metrics_test i (word_of_int (i + 1)))) [a..b])\<rparr>)"
  using start
proof (induction "nat (b + 1 - a)" arbitrary: a st)
  case 0
  then have less: "b < a" by simp
  then have m: "max a (b + 1) = a" by simp
  have "\<lparr>global_step = word_of_int a, trace = trace st\<rparr> = st"
    using "0.prems" by (cases st) simp
  then show ?case using less by (simp add: m)
next
  case (Suc n)
  then have le: "a \<le> b" and n: "n = nat (b + 1 - (a + 1))" by simp_all
  let ?st = "\<lparr>global_step = global_step st + 1,
      trace = trace st @ map (Iteration a) (iteration_calls F metrics_test a (global_step st + 1))\<rparr>"
  have gs: "global_step ?st = word_of_int (a + 1)"
    using Suc.prems by simp
  have "run_loop F metrics_test [a..b] st = run_loop F metrics_test [a + 1..b] ?st"
    using le by (simp add: upto_rec1 [of a b] iteration_result [OF ok])
  also have "\<dots> = (None, \<lparr>global_step = word_of_int (max (a + 1) (b + 1)),
       trace = trace ?st @ concat (map (\<lambda>i. map (Iteration i)
                  (iteration_calls F metrics_test i (word_of_int (i + 1)))) [a + 1..b])\<rparr>)"
    by (rule Suc.hyps(1) [OF n gs])
  finally show ?case
    using le Suc.prems by (simp add: upto_rec1 [of a b] max_def)
qed

lemma main_loop_result:
  assumes ok: "FLAGS_time_training F \<or>
     (FLAGS_log_train_steps F \<noteq> 0 \<and> FLAGS_log_val_steps F \<noteq> 0 \<and> FLAGS_model_steps F \<noteq> 0
      \<and> FLAGS_log_plots_steps F \<noteq> 0)"
  shows "main_loop F metrics_test restored
       = (None, \<lparr>global_step = word_of_int (max (sint restored) (FLAGS_steps F + 1)),
                 trace = concat (map (\<lambda>i. map (Iteration i)
                            (iteration_calls F metrics_test i (word_of_int (i + 1))))
                            [sint restored..FLAGS_steps F]) @ [WriteFinished]\<rparr>)"
  by (simp add: main_loop_def run_loop_upto [OF ok])

lemma int32_in_range:
  assumes "- (2 ^ 31) \<le> n" and "n < 2 ^ 31"
  shows "sint (word_of_int n :: 32 word) = n"
  using assms by (simp add: sint_sbintrunc' signed_take_bit_int_eq_self)

lemma Iteration_in_concat:
  "Iteration i c \<in> set (concat (map (\<lambda>j. map (Iteration j) (f j)) js) @ [WriteFinished])
     \<longleftrightarrow> i \<in> set js \<and> c \<in> set (f i)"
  by auto

lemma filter_concat_map:
  "filter P (concat (map f js)) = concat (map (\<lambda>j. filter P (f j)) js)"
  by (induction js) simp_all

lemma concat_map_if: "concat (map (\<lambda>j. if c j then [g j] else []) js) = map g (filter c js)"
  by (induction js) simp_all

lemma filter_upto_none:
  assumes "\<And>j. a \<le> j \<Longrightarrow> j \<le> b \<Longrightarrow> \<not> c j"
  shows "filter c [a..b] = []"
  using assms by (simp add: filter_empty_conv)

lemma validation_of_iteration:
  assumes "\<not> FLAGS_time_training F"
  shows "filter is_validation (map (Iteration i) (iteration_calls F metrics_test i gs))
       = (if i mod FLAGS_log_val_steps F = 0 \<or> i = FLAGS_steps F
          then [Iteration i (MetricsTest (sint gs))] else [])"
  using assms by (simp add: iteration_calls_def Let_def)

lemma save_of_iteration:
  assumes "\<not> FLAGS_time_training F"
  shows "CheckpointSave step score \<in> set (iteration_calls F metrics_test i gs)
     \<longleftrightarrow> (i mod FLAGS_model_steps F = 0
            \<or> ((i mod FLAGS_log_val_steps F = 0 \<or> i = FLAGS_steps F) \<and> metrics_test (sint gs) \<noteq> None))
         \<and> step = sint (gs - 1)
         \<and> score = (if i mod FLAGS_log_val_steps F = 0 \<or> i = FLAGS_steps F
                     then metrics_test (sint gs) else None)"
  using assms by (auto simp: iteration_calls_def Let_def)

lemma validation_steps_8000:
  "filter (\<lambda>i. i mod 4000 = 0 \<or> i = 8000) [0..8000] = [0, 4000, 8000::int]"
proof -
  have s1: "[0..8000::int] = [0..3999] @ 4000 # [4001..8000]"
    using upto_split3 [of 0 4000 8000] by (simp del: upto_rec_numeral)
  have s2: "[0..3999::int] = 0 # [1..3999]"
    using upto_rec1 [of 0 3999] by (simp del: upto_rec_numeral)
  have s3: "[4001..8000::int] = [4001..7999] @ [8000]"
    using upto_rec2 [of 4001 8000] by (simp del: upto_rec_numeral)
  have a: "filter (\<lambda>i. i mod 4000 = 0 \<or> i = 8000) [1..3999::int] = []"
  proof (rule filter_upto_none)
    fix j :: int
    assume j: "1 \<le> j" "j \<le> 3999"
    then have "j mod 4000 = j"
      by (intro mod_pos_pos_trivial) simp_all
    with j show "\<not> (j mod 4000 = 0 \<or> j = 8000)" by simp
  qed
  have b: "filter (\<lambda>i. i mod 4000 = 0 \<or> i = 8000) [4001..7999::int] = []"
  proof (rule filter_upto_none)
    fix j :: int
    assume j: "4001 \<le> j" "j \<le> 7999"
    then have "(j - 4000) mod 4000 = j - 4000"
      by (intro mod_pos_pos_trivial) simp_all
    moreover have "(j - 4000) mod 4000 = j mod 4000"
      by simp
    ultimately have "j mod 4000 = j - 4000"
      by simp
    with j show "\<not> (j mod 4000 = 0 \<or> j = 8000)" by simp
  qed
  show ?thesis
    unfolding s1 s2 s3 by (simp add: a b del: upto_rec_numeral)
qed

subsection \<open>Cadences\<close>

text \<open>
  C1: as stated (validation at loop steps 4000 and 8000 only) the claim fails: loop
  step 0 is a multiple of 4000 too. With \<^verbatim>\<open>log_train_steps\<close> 500, \<^verbatim>\<open>log_val_steps\<close> 4000,
  \<^verbatim>\<open>steps\<close> 8000, time-only mode off and the other two moduli not zero, the run from step 0
  ends without an exception and calls \<^verbatim>\<open>metrics.test\<close> at loop steps 0, 4000 and 8000,
  once each, and at no other step.
\<close>

theorem validation_at_0_4000_8000:
  assumes "FLAGS_log_train_steps F = 500" and "FLAGS_log_val_steps F = 4000"
    and "FLAGS_steps F = 8000" and "\<not> FLAGS_time_training F"
    and "FLAGS_model_steps F \<noteq> 0" and "FLAGS_log_plots_steps F \<noteq> 0"
  shows "fst (main_loop F metrics_test 0) = None
       \<and> filter is_validation (trace (snd (main_loop F metrics_test 0)))
           = [Iteration 0 (MetricsTest 1), Iteration 4000 (MetricsTest 4001),
              Iteration 8000 (MetricsTest 8001)]"
proof -
  have ok: "FLAGS_time_training F \<or>
     (FLAGS_log_train_steps F \<noteq> 0 \<and> FLAGS_log_val_steps F \<noteq> 0 \<and> FLAGS_model_steps F \<noteq> 0
      \<and> FLAGS_log_plots_steps F \<noteq> 0)"
    using assms by simp
  have run: "main_loop F metrics_test 0
       = (None, \<lparr>global_step = word_of_int (max (sint (0 :: 32 word)) (FLAGS_steps F + 1)),
                 trace = concat (map (\<lambda>i. map (Iteration i)
                            (iteration_calls F metrics_test i (word_of_int (i + 1))))
                            [sint (0 :: 32 word)..FLAGS_steps F]) @ [WriteFinished]\<rparr>)"
    by (rule main_loop_result [OF ok])
  have "filter is_validation (trace (snd (main_loop F metrics_test 0)))
      = concat (map (\<lambda>i. if i mod 4000 = 0 \<or> i = 8000
                           then [Iteration i (MetricsTest (sint (word_of_int i + 1 :: 32 word)))]
                           else []) [0..8000])"
    unfolding run
    using assms(2,3,4)
    by (simp add: filter_concat_map validation_of_iteration del: upto_rec_numeral)
  also have "\<dots> = map (\<lambda>i. Iteration i (MetricsTest (sint (word_of_int i + 1 :: 32 word))))
                      (filter (\<lambda>i. i mod 4000 = 0 \<or> i = 8000) [0..8000])"
    by (rule concat_map_if)
  also have "\<dots> = [Iteration 0 (MetricsTest 1), Iteration 4000 (MetricsTest 4001),
              Iteration 8000 (MetricsTest 8001)]"
    unfolding validation_steps_8000 by simp
  finally show ?thesis
    by (simp add: run)
qed

theorem validation_at_0_4000_8000_witness:
  "fst (main_loop (default_FLAGS ''ucihar'' ''none''\<lparr>FLAGS_steps := 8000\<rparr>) Some 0) = None
   \<and> filter is_validation (trace (snd (main_loop (default_FLAGS ''ucihar'' ''none''\<lparr>FLAGS_steps := 8000\<rparr>) Some 0)))
       = [Iteration 0 (MetricsTest 1), Iteration 4000 (MetricsTest 4001),
          Iteration 8000 (MetricsTest 8001)]"
  by (rule validation_at_0_4000_8000) (simp_all add: default_FLAGS_def)

text \<open>
  The run of the claim with the default flags otherwise: \<^verbatim>\<open>metrics.test\<close> is called at
  loop step 0.
\<close>

theorem validation_at_step_0:
  "fst (main_loop (default_FLAGS ''ucihar'' ''none''\<lparr>FLAGS_steps := 8000\<rparr>) Some 0) = None
   \<and> Iteration 0 (MetricsTest 1)
       \<in> set (trace (snd (main_loop (default_FLAGS ''ucihar'' ''none''\<lparr>FLAGS_steps := 8000\<rparr>) Some 0)))
   \<and> filter is_validation
         (trace (snd (main_loop (default_FLAGS ''ucihar'' ''none''\<lparr>FLAGS_steps := 8000\<rparr>) Some 0)))
       \<noteq> [Iteration 4000 (MetricsTest 4001), Iteration 8000 (MetricsTest 8001)]"
proof -
  let ?F = "default_FLAGS ''ucihar'' ''none''\<lparr>FLAGS_steps := 8000\<rparr>"
  have ok: "FLAGS_time_training ?F \<or>
     (FLAGS_log_train_steps ?F \<noteq> 0 \<and> FLAGS_log_val_steps ?F \<noteq> 0 \<and> FLAGS_model_steps ?F \<noteq> 0
      \<and> FLAGS_log_plots_steps ?F \<noteq> 0)"
    by (simp add: default_FLAGS_def)
  have calls: "MetricsTest 1 \<in> set (iteration_calls ?F Some 0 (word_of_int (0 + 1)))"
    by (simp add: iteration_calls_def default_FLAGS_def)
  have first: "fst (main_loop ?F Some 0) = None"
    by (simp add: main_loop_result [OF ok])
  have mem: "Iteration 0 (MetricsTest 1) \<in> set (trace (snd (main_loop ?F Some 0)))"
    unfolding main_loop_result [OF ok] snd_conv main_state.simps Iteration_in_concat
    using calls by (simp add: default_FLAGS_def del: upto_rec_numeral)
  then have inf: "Iteration 0 (MetricsTest 1) \<in> set (filter is_validation (trace (snd (main_loop ?F Some 0))))"
    by simp
  have "filter is_validation (trace (snd (main_loop ?F Some 0)))
       \<noteq> [Iteration 4000 (MetricsTest 4001), Iteration 8000 (MetricsTest 8001)]"
  proof
    assume eq: "filter is_validation (trace (snd (main_loop ?F Some 0)))
       = [Iteration 4000 (MetricsTest 4001), Iteration 8000 (MetricsTest 8001)]"
    from inf show False unfolding eq by simp
  qed
  with first mem show ?thesis by blast
qed

text \<open>
  C2: when the restored \<^verbatim>\<open>global_step\<close> is \<^verbatim>\<open>FLAGS.steps + 1\<close>, the loop makes no
  iteration, so no training step, metric, validation, checkpoint or plot call, and the
  finished marker is written once.
\<close>

theorem main_loop_finished:
  assumes "sint restored = FLAGS_steps F + 1"
  shows "main_loop F metrics_test restored = (None, \<lparr>global_step = restored, trace = [WriteFinished]\<rparr>)"
  using assms by (simp add: main_loop_def)

theorem main_loop_finished_witness:
  "main_loop (default_FLAGS ''ucihar'' ''none'') Some 80001
     = (None, \<lparr>global_step = 80001, trace = [WriteFinished]\<rparr>)"
  using main_loop_finished [of 80001 "default_FLAGS ''ucihar'' ''none''" Some]
  by (simp add: default_FLAGS_def)

text \<open>
  C4: as stated (step argument \<^verbatim>\<open>i-1\<close>) the claim fails: \<^verbatim>\<open>global_step\<close> is
  \<^verbatim>\<open>i+1\<close> after line 128, so \<^verbatim>\<open>int(global_step-1)\<close> is \<^verbatim>\<open>i\<close>. With time-only mode off, no
  modulus zero and \<^verbatim>\<open>steps\<close> below \<open>2^31 - 1\<close> (so that the 32-bit \<^verbatim>\<open>global_step\<close> does not
  overflow), the run ends without an exception, and \<^verbatim>\<open>checkpoint_manager.save\<close> is called
  in iteration \<open>i\<close> with arguments \<open>step\<close> and \<open>score\<close> exactly when \<open>i\<close> is in the range of the loop,
  \<open>i\<close> is a multiple of \<^verbatim>\<open>model_steps\<close> or the validation of that iteration returned a score,
  \<open>step\<close> is \<open>i\<close>, and \<open>score\<close> is what the validation returned (\<^verbatim>\<open>None\<close> when it did not run).
\<close>

theorem checkpoint_save_arguments:
  assumes "\<not> FLAGS_time_training F"
    and "FLAGS_log_train_steps F \<noteq> 0" and "FLAGS_log_val_steps F \<noteq> 0"
    and "FLAGS_model_steps F \<noteq> 0" and "FLAGS_log_plots_steps F \<noteq> 0"
    and "FLAGS_steps F < 2 ^ 31 - 1"
  shows "fst (main_loop F metrics_test restored) = None
       \<and> (Iteration i (CheckpointSave step score) \<in> set (trace (snd (main_loop F metrics_test restored)))
            \<longleftrightarrow> sint restored \<le> i \<and> i \<le> FLAGS_steps F
                \<and> (i mod FLAGS_model_steps F = 0
                     \<or> ((i mod FLAGS_log_val_steps F = 0 \<or> i = FLAGS_steps F) \<and> metrics_test (i + 1) \<noteq> None))
                \<and> step = i
                \<and> score = (if i mod FLAGS_log_val_steps F = 0 \<or> i = FLAGS_steps F
                            then metrics_test (i + 1) else None))"
proof -
  have ok: "FLAGS_time_training F \<or>
     (FLAGS_log_train_steps F \<noteq> 0 \<and> FLAGS_log_val_steps F \<noteq> 0 \<and> FLAGS_model_steps F \<noteq> 0
      \<and> FLAGS_log_plots_steps F \<noteq> 0)"
    using assms by simp
  note run = main_loop_result [OF ok, of metrics_test restored]
  have mem: "Iteration i (CheckpointSave step score) \<in> set (trace (snd (main_loop F metrics_test restored)))
      \<longleftrightarrow> i \<in> set [sint restored..FLAGS_steps F]
          \<and> CheckpointSave step score \<in> set (iteration_calls F metrics_test i (word_of_int (i + 1)))"
    unfolding run snd_conv main_state.simps by (rule Iteration_in_concat)
  have range: "sint (word_of_int (i + 1) :: 32 word) = i + 1 \<and> sint (word_of_int (i + 1) - 1 :: 32 word) = i"
    if "sint restored \<le> i" and "i \<le> FLAGS_steps F"
  proof -
    have low: "- (2 ^ 31) \<le> i"
      using that(1) sint_ge [of restored] by simp
    have high: "i + 1 < 2 ^ 31"
      using that(2) assms(6) by simp
    have "sint (word_of_int (i + 1) :: 32 word) = i + 1"
      using low high by (intro int32_in_range) simp_all
    moreover have "sint (word_of_int i :: 32 word) = i"
      using low high by (intro int32_in_range) simp_all
    ultimately show ?thesis by simp
  qed
  have "fst (main_loop F metrics_test restored) = None"
    by (simp add: run)
  moreover have "Iteration i (CheckpointSave step score) \<in> set (trace (snd (main_loop F metrics_test restored)))
            \<longleftrightarrow> sint restored \<le> i \<and> i \<le> FLAGS_steps F
                \<and> (i mod FLAGS_model_steps F = 0
                     \<or> ((i mod FLAGS_log_val_steps F = 0 \<or> i = FLAGS_steps F) \<and> metrics_test (i + 1) \<noteq> None))
                \<and> step = i
                \<and> score = (if i mod FLAGS_log_val_steps F = 0 \<or> i = FLAGS_steps F
                            then metrics_test (i + 1) else None)"
  proof (cases "sint restored \<le> i \<and> i \<le> FLAGS_steps F")
    case True
    then have r: "sint (word_of_int (i + 1) :: 32 word) = i + 1"
        "sint (word_of_int (i + 1) - 1 :: 32 word) = i"
      using range by simp_all
    show ?thesis
      unfolding mem save_of_iteration [OF assms(1)] r using True by auto
  next
    case False
    then show ?thesis unfolding mem by auto
  qed
  ultimately show ?thesis by blast
qed

theorem checkpoint_save_arguments_witness:
  "fst (main_loop (default_FLAGS ''ucihar'' ''none''\<lparr>FLAGS_steps := 8000\<rparr>) Some 0) = None
   \<and> Iteration 4000 (CheckpointSave 4000 (Some 4001))
       \<in> set (trace (snd (main_loop (default_FLAGS ''ucihar'' ''none''\<lparr>FLAGS_steps := 8000\<rparr>) Some 0)))"
  using checkpoint_save_arguments [of "default_FLAGS ''ucihar'' ''none''\<lparr>FLAGS_steps := 8000\<rparr>"
      Some 0 4000 4000 "Some 4001"]
  by (simp add: default_FLAGS_def)

text \<open>
  A run of one iteration (\<^verbatim>\<open>steps\<close> 0, the default flags otherwise): the checkpoint of loop
  step 0 is saved with step 0, not with \<open>0 - 1\<close>.
\<close>

theorem checkpoint_save_at_step_0:
  "main_loop (default_FLAGS ''ucihar'' ''none''\<lparr>FLAGS_steps := 0\<rparr>) Some 0
     = (None, \<lparr>global_step = 1,
               trace = [Iteration 0 TrainStep, Iteration 0 (LoggingInfo 1), Iteration 0 (MetricsTrain 1),
                        Iteration 0 (MetricsTest 1), Iteration 0 (CheckpointSave 0 (Some 1)),
                        Iteration 0 (MetricsPlots 1), WriteFinished]\<rparr>)
   \<and> Iteration 0 (CheckpointSave (0 - 1) (Some 1))
       \<notin> set (trace (snd (main_loop (default_FLAGS ''ucihar'' ''none''\<lparr>FLAGS_steps := 0\<rparr>) Some 0)))"
proof -
  let ?F = "default_FLAGS ''ucihar'' ''none''\<lparr>FLAGS_steps := 0\<rparr>"
  have ok: "FLAGS_time_training ?F \<or>
     (FLAGS_log_train_steps ?F \<noteq> 0 \<and> FLAGS_log_val_steps ?F \<noteq> 0 \<and> FLAGS_model_steps ?F \<noteq> 0
      \<and> FLAGS_log_plots_steps ?F \<noteq> 0)"
    by (simp add: default_FLAGS_def)
  have run: "main_loop ?F Some 0
     = (None, \<lparr>global_step = 1,
               trace = [Iteration 0 TrainStep, Iteration 0 (LoggingInfo 1), Iteration 0 (MetricsTrain 1),
                        Iteration 0 (MetricsTest 1), Iteration 0 (CheckpointSave 0 (Some 1)),
                        Iteration 0 (MetricsPlots 1), WriteFinished]\<rparr>)"
    unfolding main_loop_result [OF ok]
    by (simp add: default_FLAGS_def iteration_calls_def)
  show ?thesis
    unfolding run by simp
qed

text \<open>
  C5: as stated (the plotting hook still fires) the claim fails: the
  \<^verbatim>\<open>continue\<close> of line 133 skips the rest of the iteration, plots included. In time-only
  mode the run ends without an exception, every iteration is the training step followed by
  the timing record and nothing else, and \<^verbatim>\<open>metrics.plots\<close> is never called. The argument
  of the timing record is \<^verbatim>\<open>int(global_step)\<close> after the increment.
\<close>

theorem time_training_skips_all:
  assumes "FLAGS_time_training F"
  shows "fst (main_loop F metrics_test restored) = None
       \<and> trace (snd (main_loop F metrics_test restored))
           = concat (map (\<lambda>i. [Iteration i TrainStep,
                                 Iteration i (PrintTiming (sint (word_of_int (i + 1) :: 32 word)))])
                      [sint restored..FLAGS_steps F]) @ [WriteFinished]
       \<and> filter is_plots (trace (snd (main_loop F metrics_test restored))) = []"
proof -
  have ok: "FLAGS_time_training F \<or>
     (FLAGS_log_train_steps F \<noteq> 0 \<and> FLAGS_log_val_steps F \<noteq> 0 \<and> FLAGS_model_steps F \<noteq> 0
      \<and> FLAGS_log_plots_steps F \<noteq> 0)"
    using assms by simp
  have calls: "map (Iteration i) (iteration_calls F metrics_test i (word_of_int (i + 1)))
      = [Iteration i TrainStep, Iteration i (PrintTiming (sint (word_of_int (i + 1) :: 32 word)))]" for i
    using assms by (simp add: iteration_calls_def)
  have tr: "trace (snd (main_loop F metrics_test restored))
           = concat (map (\<lambda>i. [Iteration i TrainStep,
                                 Iteration i (PrintTiming (sint (word_of_int (i + 1) :: 32 word)))])
                      [sint restored..FLAGS_steps F]) @ [WriteFinished]"
    unfolding main_loop_result [OF ok] snd_conv main_state.simps calls ..
  have "filter is_plots (trace (snd (main_loop F metrics_test restored))) = []"
    unfolding tr by (simp add: filter_concat_map)
  moreover have "fst (main_loop F metrics_test restored) = None"
    by (simp add: main_loop_result [OF ok])
  ultimately show ?thesis using tr by blast
qed

theorem time_training_skips_all_witness:
  "fst (main_loop (default_FLAGS ''ucihar'' ''none''\<lparr>FLAGS_steps := 1, FLAGS_time_training := True\<rparr>) Some 0) = None
   \<and> trace (snd (main_loop (default_FLAGS ''ucihar'' ''none''\<lparr>FLAGS_steps := 1, FLAGS_time_training := True\<rparr>) Some 0))
       = [Iteration 0 TrainStep, Iteration 0 (PrintTiming 1),
          Iteration 1 TrainStep, Iteration 1 (PrintTiming 2), WriteFinished]
   \<and> filter is_plots
        (trace (snd (main_loop (default_FLAGS ''ucihar'' ''none''\<lparr>FLAGS_steps := 1, FLAGS_time_training := True\<rparr>) Some 0)))
       = []"
  using time_training_skips_all
    [of "default_FLAGS ''ucihar'' ''none''\<lparr>FLAGS_steps := 1, FLAGS_time_training := True\<rparr>" Some 0]
  by (simp add: default_FLAGS_def upto_rec1 [of 0 1])

text \<open>
  A time-only run of one iteration: loop step 0 is a multiple of \<^verbatim>\<open>log_plots_steps\<close>, and
  no plot is made.
\<close>

theorem time_training_no_plots_at_step_0:
  "(0::int) mod FLAGS_log_plots_steps (default_FLAGS ''ucihar'' ''none''\<lparr>FLAGS_steps := 0, FLAGS_time_training := True\<rparr>) = 0
   \<and> main_loop (default_FLAGS ''ucihar'' ''none''\<lparr>FLAGS_steps := 0, FLAGS_time_training := True\<rparr>) Some 0
       = (None, \<lparr>global_step = 1,
                 trace = [Iteration 0 TrainStep, Iteration 0 (PrintTiming 1), WriteFinished]\<rparr>)"
proof -
  let ?F = "default_FLAGS ''ucihar'' ''none''\<lparr>FLAGS_steps := 0, FLAGS_time_training := True\<rparr>"
  have ok: "FLAGS_time_training ?F \<or>
     (FLAGS_log_train_steps ?F \<noteq> 0 \<and> FLAGS_log_val_steps ?F \<noteq> 0 \<and> FLAGS_model_steps ?F \<noteq> 0
      \<and> FLAGS_log_plots_steps ?F \<noteq> 0)"
    by (simp add: default_FLAGS_def)
  show ?thesis
    unfolding main_loop_result [OF ok]
    by (simp add: default_FLAGS_def iteration_calls_def)
qed

section \<open>Properties of the directory names\<close>

text \<open>
  \<^verbatim>\<open>FLAGS.uid\<close> is an integer, so line 51 raises \<^verbatim>\<open>TypeError\<close> whatever the flags are.
  \<^verbatim>\<open>main\<close> calls \<^verbatim>\<open>get_directory_names\<close> at line 87, before the loop of lines 124-159,
  which \<open>main_loop\<close> models from the restored step on.
\<close>

lemma get_directory_names_raises:
  "get_directory_names last_modified_number F = Inl TypeError"
  by (simp add: get_directory_names_def)

text \<open>
  What lines 53-79 compute from a value of \<^verbatim>\<open>prefix\<close>, were line 51 to give one: the four
  modes in the order of the source, and the call of \<^verbatim>\<open>last_modified_number\<close> only in the
  second.
\<close>

lemma directory_names_for_modes:
  "directory_names_for last_modified_number F prefix =
     (if 0 \<le> FLAGS_debugnum F
      then ((os_path_join (FLAGS_modeldir F) (prefix @ ''-'' @ str (FLAGS_debugnum F)),
             os_path_join (FLAGS_logdir F) (prefix @ ''-'' @ str (FLAGS_debugnum F))), [])
      else if FLAGS_debug F
      then ((os_path_join (FLAGS_modeldir F)
               (prefix @ ''-'' @ str (case last_modified_number (FLAGS_logdir F) (prefix @ ''*'') of
                                       None \<Rightarrow> 1 | Some a \<Rightarrow> a + 1)),
             os_path_join (FLAGS_logdir F)
               (prefix @ ''-'' @ str (case last_modified_number (FLAGS_logdir F) (prefix @ ''*'') of
                                       None \<Rightarrow> 1 | Some a \<Rightarrow> a + 1))),
            [(FLAGS_logdir F, prefix @ ''*'')])
      else if FLAGS_subdir F
      then ((os_path_join (FLAGS_modeldir F) prefix, os_path_join (FLAGS_logdir F) prefix), [])
      else ((FLAGS_modeldir F, FLAGS_logdir F), []))"
  by (simp add: directory_names_for_def Let_def split: option.split)

lemma os_path_join_relative:
  assumes "a \<noteq> []" and "last a \<noteq> CHR ''/''" and "take 1 b \<noteq> ''/''"
  shows "os_path_join a b = a @ ''/'' @ b"
  using assms by (simp add: os_path_join_def)

lemma directory_names_for_example:
  "directory_names_for (\<lambda>d g. Some 4) (default_FLAGS ''ucihar'' ''none''\<lparr>FLAGS_debug := True\<rparr>) ''ucihar-0-none''
     = ((''models/ucihar-0-none-5'', ''logs/ucihar-0-none-5''), [(''logs'', ''ucihar-0-none*'')])"
  by (simp add: directory_names_for_def Let_def default_FLAGS_def os_path_join_def str_def str_nat.simps)

text \<open>
  C6: the code does not produce the base name: with the default \<^verbatim>\<open>uid\<close> (0),
  data set \<^verbatim>\<open>ucihar\<close> and method \<^verbatim>\<open>none\<close>, \<^verbatim>\<open>get_directory_names\<close> raises
  \<^verbatim>\<open>TypeError\<close> instead of using the base name \<^verbatim>\<open>ucihar-0-none\<close>.
\<close>

theorem get_directory_names_default_uid:
  "get_directory_names last_modified_number (default_FLAGS ''ucihar'' ''none'') = Inl TypeError"
  by (simp add: get_directory_names_def)

text \<open>
  C7: the code selects none of the four modes: with an explicit debug number,
  in auto-increment debug mode, in subdirectory mode and in flat mode alike,
  \<^verbatim>\<open>get_directory_names\<close> raises \<^verbatim>\<open>TypeError\<close> at line 51, before the branch on the modes.
\<close>

theorem get_directory_names_no_mode:
  "get_directory_names last_modified_number (default_FLAGS ''ucihar'' ''none''\<lparr>FLAGS_debugnum := 3\<rparr>)
     = Inl TypeError
   \<and> get_directory_names last_modified_number (default_FLAGS ''ucihar'' ''none''\<lparr>FLAGS_debug := True\<rparr>)
     = Inl TypeError
   \<and> get_directory_names last_modified_number (default_FLAGS ''ucihar'' ''none'')
     = Inl TypeError
   \<and> get_directory_names last_modified_number (default_FLAGS ''ucihar'' ''none''\<lparr>FLAGS_subdir := False\<rparr>)
     = Inl TypeError"
  by (simp add: get_directory_names_def)

end
